theory Spec2Isabelle
  imports Main "HOL-Library.Word" "HOL-Library.Sublist"
begin

unbundle bit_operations_syntax

section \<open>Constants of \<open>usb.h\<close> and of the libusb header it includes\<close>

text \<open>
  The values of the \<open>LIBUSB_*\<close> names are those of \<open>libusb.h\<close>, the external library
  header that \<open>usb.h\<close> includes; the remaining constants are the \<open>#define\<close>s of \<open>usb.h\<close>.
\<close>

definition LIBUSB_CLASS_HUB :: "8 word" where "LIBUSB_CLASS_HUB = 9"
definition LIBUSB_DT_HUB_NONVAR_SIZE :: int where "LIBUSB_DT_HUB_NONVAR_SIZE = 7"
definition LIBUSB_ERROR_INVALID_PARAM :: int where "LIBUSB_ERROR_INVALID_PARAM = - 2"
definition LIBUSB_ERROR_ACCESS :: int where "LIBUSB_ERROR_ACCESS = - 3"

text \<open>The values of \<open>enum libusb_error\<close>: what a failed libusb call can return.\<close>

definition libusb_error_codes :: "int list" where
  "libusb_error_codes = [- 1, - 2, - 3, - 4, - 5, - 6, - 7, - 8, - 9, - 10, - 11, - 12, - 99]"

definition MAX_HUBS :: nat where "MAX_HUBS = 128"
definition USB_SS_BCD :: int where "USB_SS_BCD = 0x0300"

definition USB_PORT_STAT_CONNECTION :: int where "USB_PORT_STAT_CONNECTION = 0x0001"
definition USB_PORT_STAT_ENABLE :: int where "USB_PORT_STAT_ENABLE = 0x0002"
definition USB_PORT_STAT_SUSPEND :: int where "USB_PORT_STAT_SUSPEND = 0x0004"
definition USB_PORT_STAT_OVERCURRENT :: int where "USB_PORT_STAT_OVERCURRENT = 0x0008"
definition USB_PORT_STAT_RESET :: int where "USB_PORT_STAT_RESET = 0x0010"
definition USB_PORT_STAT_POWER :: int where "USB_PORT_STAT_POWER = 0x0100"
definition USB_PORT_STAT_LOW_SPEED :: int where "USB_PORT_STAT_LOW_SPEED = 0x0200"
definition USB_PORT_STAT_HIGH_SPEED :: int where "USB_PORT_STAT_HIGH_SPEED = 0x0400"
definition USB_PORT_STAT_TEST :: int where "USB_PORT_STAT_TEST = 0x0800"
definition USB_PORT_STAT_INDICATOR :: int where "USB_PORT_STAT_INDICATOR = 0x1000"

definition USB_PORT_STAT_LINK_STATE :: int where "USB_PORT_STAT_LINK_STATE = 0x01e0"
definition USB_SS_PORT_STAT_POWER :: int where "USB_SS_PORT_STAT_POWER = 0x0200"
definition USB_SS_PORT_STAT_SPEED :: int where "USB_SS_PORT_STAT_SPEED = 0x1c00"
definition USB_PORT_STAT_SPEED_5GBPS :: int where "USB_PORT_STAT_SPEED_5GBPS = 0x0000"

definition USB_SS_PORT_LS_U0 :: int where "USB_SS_PORT_LS_U0 = 0x0000"
definition USB_SS_PORT_LS_U1 :: int where "USB_SS_PORT_LS_U1 = 0x0020"
definition USB_SS_PORT_LS_U2 :: int where "USB_SS_PORT_LS_U2 = 0x0040"
definition USB_SS_PORT_LS_U3 :: int where "USB_SS_PORT_LS_U3 = 0x0060"
definition USB_SS_PORT_LS_SS_DISABLED :: int where "USB_SS_PORT_LS_SS_DISABLED = 0x0080"
definition USB_SS_PORT_LS_RX_DETECT :: int where "USB_SS_PORT_LS_RX_DETECT = 0x00a0"
definition USB_SS_PORT_LS_SS_INACTIVE :: int where "USB_SS_PORT_LS_SS_INACTIVE = 0x00c0"
definition USB_SS_PORT_LS_POLLING :: int where "USB_SS_PORT_LS_POLLING = 0x00e0"
definition USB_SS_PORT_LS_RECOVERY :: int where "USB_SS_PORT_LS_RECOVERY = 0x0100"
definition USB_SS_PORT_LS_HOT_RESET :: int where "USB_SS_PORT_LS_HOT_RESET = 0x0120"
definition USB_SS_PORT_LS_COMP_MOD :: int where "USB_SS_PORT_LS_COMP_MOD = 0x0140"
definition USB_SS_PORT_LS_LOOPBACK :: int where "USB_SS_PORT_LS_LOOPBACK = 0x0160"

definition HUB_CHAR_LPSM :: "8 word" where "HUB_CHAR_LPSM = 0x0003"
definition HUB_CHAR_INDV_PORT_LPSM :: "8 word" where "HUB_CHAR_INDV_PORT_LPSM = 0x0001"
definition HUB_CHAR_OCPM :: "8 word" where "HUB_CHAR_OCPM = 0x0018"
definition HUB_CHAR_COMMON_OCPM :: "8 word" where "HUB_CHAR_COMMON_OCPM = 0x0000"
definition HUB_CHAR_INDV_PORT_OCPM :: "8 word" where "HUB_CHAR_INDV_PORT_OCPM = 0x0008"

section \<open>The C string functions the code calls\<close>

text \<open>
  A C string is modelled as the list of its characters before the terminating NUL, so a
  string of the model holds no NUL character. \<open>tolower\<close> is the one of the C locale.
  \<open>strcasecmp\<close> and \<open>strncasecmp\<close> return the difference of the first pair of
  lower-cased characters that differ (the end of a string reads as NUL), as POSIX
  describes them; the code only tests the result against zero.
\<close>

definition tolower :: "char \<Rightarrow> char" where
  "tolower c =
     (if (65::nat) \<le> of_char c \<and> of_char c \<le> (90::nat)
      then char_of (of_char c + (32::nat)) else c)"

fun strcasecmp :: "string \<Rightarrow> string \<Rightarrow> int" where
  "strcasecmp [] [] = 0"
| "strcasecmp [] (b # t) = - int (of_char (tolower b))"
| "strcasecmp (a # s) [] = int (of_char (tolower a))"
| "strcasecmp (a # s) (b # t) =
     (if tolower a = tolower b then strcasecmp s t
      else int (of_char (tolower a)) - int (of_char (tolower b)))"

fun strncasecmp :: "string \<Rightarrow> string \<Rightarrow> nat \<Rightarrow> int" where
  "strncasecmp s t 0 = 0"
| "strncasecmp [] [] (Suc n) = 0"
| "strncasecmp [] (b # t) (Suc n) = - int (of_char (tolower b))"
| "strncasecmp (a # s) [] (Suc n) = int (of_char (tolower a))"
| "strncasecmp (a # s) (b # t) (Suc n) =
     (if tolower a = tolower b then strncasecmp s t n
      else int (of_char (tolower a)) - int (of_char (tolower b)))"

text \<open>\<open>strchr\<close> returns the suffix starting at the first occurrence, or NULL (\<open>None\<close>).\<close>

fun strchr :: "string \<Rightarrow> char \<Rightarrow> string option" where
  "strchr [] c = None"
| "strchr (a # s) c = (if a = c then Some (a # s) else strchr s c)"

text \<open>\<open>printf\<close> conversions \<open>%d\<close> (of a non-negative value) and \<open>%04x\<close> (of a 16-bit value).\<close>

definition digit_char :: "nat \<Rightarrow> char" where
  "digit_char n = ''0123456789abcdef'' ! n"

fun fmt_d :: "nat \<Rightarrow> string" where
  "fmt_d n = (if n < 10 then [digit_char n] else fmt_d (n div 10) @ [digit_char (n mod 10)])"

definition fmt_04x :: "nat \<Rightarrow> string" where
  "fmt_04x n =
     [digit_char (n div 4096 mod 16), digit_char (n div 256 mod 16),
      digit_char (n div 16 mod 16), digit_char (n mod 16)]"

section \<open>Data model\<close>

text \<open>The fields of \<open>struct libusb_device_descriptor\<close> that the code reads.\<close>

record libusb_device_descriptor =
  bDeviceClass :: "8 word"
  bcdUSB :: "16 word"
  idVendor :: "16 word"
  idProduct :: "16 word"

text \<open>\<open>struct usb_hub_descriptor\<close>, laid over the transfer buffer; the code reads two fields.\<close>

record usb_hub_descriptor =
  bNbrPorts :: "8 word"
  wHubCharacteristics :: "8 word list"

text \<open>
  The hub characteristics word travels little-endian: byte 0 of the array is its low byte.
\<close>

definition hub_characteristics_bytes :: "16 word \<Rightarrow> 8 word list" where
  "hub_characteristics_bytes w = [ucast w, ucast (drop_bit 8 w)]"

text \<open>
  A \<open>libusb_device\<close> together with what the USB access layer answers for it: the return
  code and content of \<open>libusb_get_device_descriptor\<close>, the return code of \<open>libusb_open\<close>,
  the return value of the hub-descriptor control transfer with the buffer it filled, the
  bus number, the port numbers (\<open>pcount\<close> is the length of the list; an error return of
  \<open>libusb_get_port_numbers\<close> runs the location loop zero times, like the empty list), and
  the text \<open>get_device_description\<close> formats for it from its string descriptors.
\<close>

record libusb_device =
  dev_ptr :: nat
  get_device_descriptor_rc :: int
  device_descriptor :: libusb_device_descriptor
  open_rc :: int
  hub_descriptor_len :: int
  hub_descriptor :: usb_hub_descriptor
  bus_number :: "8 word"
  port_numbers :: "8 word list"
  description_text :: string

text \<open>\<open>struct hub_info\<close>; the flags \<open>ppps\<close> and \<open>actionable\<close> only ever hold 0 or 1.\<close>

record hub_info =
  dev :: nat
  bcd_usb :: int
  nports :: int
  ppps :: bool
  actionable :: bool
  vendor :: string
  location :: string
  description :: string

text \<open>The record after \<open>bzero(&info, sizeof(info))\<close>.\<close>

definition zero_info :: hub_info where
  "zero_info =
     \<lparr>dev = 0, bcd_usb = 0, nports = 0, ppps = False, actionable = False,
      vendor = [], location = [], description = []\<rparr>"

section \<open>\<open>get_hub_info\<close>\<close>

text \<open>
  The location string: the bus number, then each port number with \<open>-\<close> before the first
  and \<open>.\<close> before the others (the loop over \<open>k\<close> with \<open>strcat\<close>).
\<close>

fun port_path :: "nat \<Rightarrow> 8 word list \<Rightarrow> string" where
  "port_path k [] = []"
| "port_path k (p # ps) =
     (if k = 0 then ''-'' else ''.'') @ fmt_d (unat p) @ port_path (Suc k) ps"

definition location_string :: "libusb_device \<Rightarrow> string" where
  "location_string d = fmt_d (unat (bus_number d)) @ port_path 0 (port_numbers d)"

definition vendor_string :: "libusb_device_descriptor \<Rightarrow> string" where
  "vendor_string desc = fmt_04x (unat (idVendor desc)) @ '':'' @ fmt_04x (unat (idProduct desc))"

text \<open>The decoding of lines 247 to 258: \<open>lpsm\<close> and \<open>ocpm\<close> are masked out of byte 0.\<close>

definition ppps_of_characteristics :: "8 word list \<Rightarrow> bool" where
  "ppps_of_characteristics chars =
     (let lpsm = (chars ! 0) AND HUB_CHAR_LPSM;
          ocpm = (chars ! 0) AND HUB_CHAR_OCPM
      in lpsm = HUB_CHAR_INDV_PORT_LPSM \<and>
         (ocpm = HUB_CHAR_INDV_PORT_OCPM \<or> ocpm = HUB_CHAR_COMMON_OCPM))"

text \<open>
  \<open>get_hub_info\<close> returns its code and the \<open>info\<close> record as it leaves it: untouched on
  every failure path, filled (all fields but \<open>description\<close> and \<open>actionable\<close>) when the
  transfer returned at least \<open>minlen\<close> bytes. A short transfer returns its length as the
  code, which is 0 when the transfer returned no bytes.
\<close>

definition get_hub_info :: "libusb_device \<Rightarrow> hub_info \<Rightarrow> int \<times> hub_info" where
  "get_hub_info d info =
     (let minlen = LIBUSB_DT_HUB_NONVAR_SIZE + 2;
          rc = get_device_descriptor_rc d;
          desc = device_descriptor d
      in if rc \<noteq> 0 then (rc, info)
         else if bDeviceClass desc \<noteq> LIBUSB_CLASS_HUB then (LIBUSB_ERROR_INVALID_PARAM, info)
         else
           let bcd = uint (bcdUSB desc);
               rc = open_rc d
           in if rc = 0 then
                (let len = hub_descriptor_len d
                 in if len \<ge> minlen then
                      (rc, info\<lparr>dev := dev_ptr d,
                                bcd_usb := bcd,
                                nports := uint (bNbrPorts (hub_descriptor d)),
                                vendor := vendor_string desc,
                                location := location_string d,
                                ppps := ppps_of_characteristics
                                          (wHubCharacteristics (hub_descriptor d))\<rparr>)
                    else (len, info))
              else (rc, info))"

section \<open>\<open>get_port_status\<close> and \<open>print_port_status\<close>\<close>

text \<open>
  The answer of the port-status control transfer: its return value and the
  \<open>wPortStatus\<close> field of \<open>struct usb_port_status\<close> afterwards, an \<open>int16_t\<close>.
\<close>

record port_transfer =
  transfer_rc :: int
  wPortStatus :: "16 word"

text \<open>The handle is \<open>None\<close> for a NULL \<open>devh\<close>. The \<open>int16_t\<close> field is returned as \<open>int\<close>.\<close>

definition get_port_status :: "nat option \<Rightarrow> port_transfer \<Rightarrow> int" where
  "get_port_status devh x =
     (if devh = None then - 1
      else if transfer_rc x < 0 then transfer_rc x
      else sint (wPortStatus x))"

text \<open>The labels printed after the port number and raw status, in the order of the code.\<close>

definition flag :: "int \<Rightarrow> int \<Rightarrow> string \<Rightarrow> string list" where
  "flag port_status m s = (if port_status AND m \<noteq> 0 then [s] else [])"

definition status_labels :: "int \<Rightarrow> int \<Rightarrow> string \<Rightarrow> string list" where
  "status_labels bcd port_status descr =
     (if bcd < USB_SS_BCD then
        (if port_status = 0 then ['' off'']
         else
           flag port_status USB_PORT_STAT_POWER '' power'' @
           flag port_status USB_PORT_STAT_INDICATOR '' indicator'' @
           flag port_status USB_PORT_STAT_TEST '' test'' @
           flag port_status USB_PORT_STAT_HIGH_SPEED '' highspeed'' @
           flag port_status USB_PORT_STAT_LOW_SPEED '' lowspeed'' @
           flag port_status USB_PORT_STAT_SUSPEND '' suspend'')
      else
        (if port_status = USB_SS_PORT_LS_SS_DISABLED then ['' off'']
         else
           (let link_state = port_status AND USB_PORT_STAT_LINK_STATE in
              flag port_status USB_SS_PORT_STAT_POWER '' power'' @
              (if port_status AND USB_SS_PORT_STAT_SPEED = USB_PORT_STAT_SPEED_5GBPS
               then ['' 5gbps''] else []) @
              (if link_state = USB_SS_PORT_LS_U0 then ['' U0''] else []) @
              (if link_state = USB_SS_PORT_LS_U1 then ['' U1''] else []) @
              (if link_state = USB_SS_PORT_LS_U2 then ['' U2''] else []) @
              (if link_state = USB_SS_PORT_LS_U3 then ['' U3''] else []) @
              (if link_state = USB_SS_PORT_LS_SS_DISABLED then ['' SS.Disabled''] else []) @
              (if link_state = USB_SS_PORT_LS_RX_DETECT then ['' Rx.Detect''] else []) @
              (if link_state = USB_SS_PORT_LS_SS_INACTIVE then ['' SS.Inactive''] else []) @
              (if link_state = USB_SS_PORT_LS_POLLING then ['' Polling''] else []) @
              (if link_state = USB_SS_PORT_LS_RECOVERY then ['' Recovery''] else []) @
              (if link_state = USB_SS_PORT_LS_HOT_RESET then ['' HotReset''] else []) @
              (if link_state = USB_SS_PORT_LS_COMP_MOD then ['' Compliance''] else []) @
              (if link_state = USB_SS_PORT_LS_LOOPBACK then ['' Loopback''] else [])))) @
     flag port_status USB_PORT_STAT_RESET '' reset'' @
     flag port_status USB_PORT_STAT_OVERCURRENT '' oc'' @
     flag port_status USB_PORT_STAT_ENABLE '' enable'' @
     flag port_status USB_PORT_STAT_CONNECTION '' connect'' @
     flag port_status USB_PORT_STAT_CONNECTION ('' ['' @ descr @ '']'')"

text \<open>
  What the loop writes for one port: the line on stderr of a failed read, or the line on
  stdout with the port number, the raw status and the labels.
\<close>

datatype port_output =
    Cannot_read_port int
  | Port_line int int "string list"

text \<open>
  The loop \<open>for (port = 1; port <= hub->nports; port++)\<close> over the ports still to visit:
  \<open>continue\<close> for a port outside a positive \<open>portmask\<close>, \<open>break\<close> after the message when
  \<open>get_port_status\<close> returned \<open>-1\<close>. \<open>transfers\<close> gives the answer of the access layer for
  each port, \<open>attached\<close> the description found for the device on that port (the search
  through \<open>usb_devs\<close>). The shift \<open>1 << (port-1)\<close> is defined in C up to port 31.
\<close>

fun port_loop ::
  "nat option \<Rightarrow> (int \<Rightarrow> port_transfer) \<Rightarrow> (int \<Rightarrow> string) \<Rightarrow> hub_info \<Rightarrow> int \<Rightarrow>
   int list \<Rightarrow> port_output list" where
  "port_loop devh transfers attached hub portmask [] = []"
| "port_loop devh transfers attached hub portmask (port # ports) =
     (if portmask > 0 \<and> portmask AND push_bit (nat (port - 1)) 1 = 0
      then port_loop devh transfers attached hub portmask ports
      else
        let port_status = get_port_status devh (transfers port)
        in if port_status = - 1 then [Cannot_read_port port]
           else Port_line port port_status
                  (status_labels (bcd_usb hub) port_status (attached port))
                # port_loop devh transfers attached hub portmask ports)"

text \<open>
  \<open>print_port_status\<close>: \<open>hub_open_rc\<close> is the return code of \<open>libusb_open\<close> on the hub's
  device and \<open>handle\<close> the handle it stores. The function returns 0 on every path, so the
  model returns what it printed.
\<close>

definition print_port_status ::
  "int \<Rightarrow> nat \<Rightarrow> (int \<Rightarrow> port_transfer) \<Rightarrow> (int \<Rightarrow> string) \<Rightarrow> hub_info \<Rightarrow> int \<Rightarrow>
   port_output list" where
  "print_port_status hub_open_rc handle transfers attached hub portmask =
     (if hub_open_rc = 0
      then port_loop (Some handle) transfers attached hub portmask [1..nports hub]
      else [])"

section \<open>\<open>usb_find_hubs\<close>\<close>

text \<open>
  \<open>get_device_description\<close> writes the buffer only when the device descriptor could be
  read; the formatted text itself is the device's \<open>description_text\<close>.
\<close>

definition get_device_description :: "libusb_device \<Rightarrow> string \<Rightarrow> int \<times> string" where
  "get_device_description d buffer =
     (if get_device_descriptor_rc d \<noteq> 0 then (get_device_descriptor_rc d, buffer)
      else (0, description_text d))"

text \<open>Lines 489 to 499: the \<open>actionable\<close> flag of a record with PPPS, under the two filters.\<close>

definition apply_filters :: "string \<Rightarrow> string \<Rightarrow> hub_info \<Rightarrow> hub_info" where
  "apply_filters location_filter vendor_filter info =
     (let info = info\<lparr>actionable := True\<rparr>;
          info = (if length location_filter > 0
                  then (if strcasecmp location_filter (location info) \<noteq> 0
                        then info\<lparr>actionable := False\<rparr> else info)
                  else info);
          info = (if length vendor_filter > 0
                  then (if strncasecmp vendor_filter (vendor info) (length vendor_filter) \<noteq> 0
                        then info\<lparr>actionable := False\<rparr> else info)
                  else info)
      in info)"

text \<open>
  One iteration of the scan \<open>while ((dev = usb_devs[i++]) != NULL)\<close>. The state is
  \<open>perm_ok\<close> and the registry \<open>hubs\<close> (\<open>hub_count\<close> is its length).
\<close>

definition scan_device ::
  "string \<Rightarrow> string \<Rightarrow> libusb_device \<Rightarrow> bool \<times> hub_info list \<Rightarrow> bool \<times> hub_info list" where
  "scan_device location_filter vendor_filter d st =
     (let perm_ok = fst st; hubs = snd st in
      if get_device_descriptor_rc d = 0 \<and>
         bDeviceClass (device_descriptor d) \<noteq> LIBUSB_CLASS_HUB
      then (perm_ok, hubs)
      else
        let (rc, info) = get_hub_info d zero_info;
            perm_ok = (if rc \<noteq> 0 then False else perm_ok);
            info = info\<lparr>description := snd (get_device_description d (description info))\<rparr>
        in if ppps info then
             (if length hubs < MAX_HUBS
              then (perm_ok, hubs @ [apply_filters location_filter vendor_filter info])
              else (perm_ok, hubs))
           else (perm_ok, hubs))"

definition scan_devices ::
  "string \<Rightarrow> string \<Rightarrow> libusb_device list \<Rightarrow> bool \<times> hub_info list \<Rightarrow> bool \<times> hub_info list" where
  "scan_devices location_filter vendor_filter usb_devs st =
     fold (scan_device location_filter vendor_filter) usb_devs st"

text \<open>
  The inner loop \<open>for (j=0; j<hub_count; j++)\<close> over the indices still to visit, with the
  current \<open>match\<close> (\<open>-1\<close> for none). The \<open>break\<close> returns \<open>j\<close> at once.
\<close>

fun find_dual :: "hub_info list \<Rightarrow> nat \<Rightarrow> nat list \<Rightarrow> int \<Rightarrow> int" where
  "find_dual hubs i [] match = match"
| "find_dual hubs i (j # js) match =
     (if i = j then find_dual hubs i js match
      else if (bcd_usb (hubs ! i) < USB_SS_BCD) = (bcd_usb (hubs ! j) < USB_SS_BCD)
      then find_dual hubs i js match
      else if strncasecmp (vendor (hubs ! i)) (vendor (hubs ! j)) 4 \<noteq> 0
      then find_dual hubs i js match
      else
        let match = (if match < 0 \<and> \<not> actionable (hubs ! j) then int j else match)
        in case (strchr (location (hubs ! i)) CHR ''-'', strchr (location (hubs ! j)) CHR ''-'') of
             (Some p1, Some p2) \<Rightarrow>
               if strcasecmp p1 p2 = 0 then int j else find_dual hubs i js match
           | _ \<Rightarrow> find_dual hubs i js match)"

text \<open>
  One iteration of the outer loop \<open>for (i=0; i<hub_count; i++)\<close>. The state is the
  registry and \<open>hub_phys_count\<close>.
\<close>

definition correlate_hub :: "bool \<Rightarrow> nat \<Rightarrow> hub_info list \<times> nat \<Rightarrow> hub_info list \<times> nat" where
  "correlate_hub exact i st =
     (let hubs = fst st; hub_phys_count = snd st in
      if \<not> actionable (hubs ! i) then (hubs, hub_phys_count)
      else
        let hub_phys_count =
              (if bcd_usb (hubs ! i) < USB_SS_BCD \<or> exact
               then hub_phys_count + 1 else hub_phys_count)
        in if exact then (hubs, hub_phys_count)
           else
             let match = find_dual hubs i [0..<length hubs] (- 1)
             in if match \<ge> 0
                then (hubs[nat match := (hubs ! nat match)\<lparr>actionable := True\<rparr>], hub_phys_count)
                else (hubs, hub_phys_count))"

text \<open>The state after the first \<open>k\<close> iterations of the outer loop, \<open>hub_phys_count\<close> reset to 0.\<close>

definition correlate_upto :: "bool \<Rightarrow> nat \<Rightarrow> hub_info list \<Rightarrow> hub_info list \<times> nat" where
  "correlate_upto exact k hubs = fold (correlate_hub exact) [0..<k] (hubs, 0)"

definition correlate :: "bool \<Rightarrow> hub_info list \<Rightarrow> hub_info list \<times> nat" where
  "correlate exact hubs = correlate_upto exact (length hubs) hubs"

text \<open>
  \<open>usb_find_hubs\<close> on the NULL-terminated array \<open>usb_devs\<close> (the list of its entries),
  starting from the empty registry of a fresh process. The result is the return value
  together with the globals \<open>hubs\<close> and \<open>hub_phys_count\<close> it leaves.
\<close>

record find_result =
  return_value :: int
  registry :: "hub_info list"
  phys_count :: nat

definition usb_find_hubs :: "libusb_device list \<Rightarrow> string \<Rightarrow> string \<Rightarrow> bool \<Rightarrow> find_result" where
  "usb_find_hubs usb_devs location_filter vendor_filter exact =
     (let (perm_ok, hubs) = scan_devices location_filter vendor_filter usb_devs (True, []);
          (hubs, hub_phys_count) = correlate exact hubs
      in \<lparr>return_value =
            (if \<not> perm_ok \<and> hub_phys_count = 0 then LIBUSB_ERROR_ACCESS
             else int hub_phys_count),
          registry = hubs,
          phys_count = hub_phys_count\<rparr>)"

section \<open>Predicates used to state the properties\<close>

text \<open>
  \<open>only_promoted before after\<close>: the registry \<open>after\<close> has the records of \<open>before\<close>, in
  the same places, except that some have had \<open>actionable\<close> set.
\<close>

definition only_promoted :: "hub_info list \<Rightarrow> hub_info list \<Rightarrow> bool" where
  "only_promoted before after \<longleftrightarrow>
     length after = length before \<and>
     (\<forall>j<length before. after ! j = before ! j \<or> after ! j = (before ! j)\<lparr>actionable := True\<rparr>)"

text \<open>The negation of the \<open>continue\<close> test of the port loop: the port is displayed.\<close>

definition port_selected :: "int \<Rightarrow> int \<Rightarrow> bool" where
  "port_selected portmask port \<longleftrightarrow> \<not> (portmask > 0 \<and> portmask AND push_bit (nat (port - 1)) 1 = 0)"

section \<open>Concrete inputs\<close>

text \<open>
  One physical hub with two personas, as Linux shows it: the USB 2.10 persona on bus 1
  port 1, the USB 3.00 persona on bus 2 port 1, both of vendor \<open>0451\<close>, both with per-port
  power switching. Two more personas of the same vendor on other ports; a hub of another
  vendor that the user may not open (\<open>libusb_open\<close> returns \<open>LIBUSB_ERROR_ACCESS\<close>); a hub
  whose hub-descriptor transfer returns no bytes; and port transfers that fail with \<open>-1\<close>
  (the value of \<open>LIBUSB_ERROR_IO\<close>) on one port, or that succeed with the status word
  \<open>0xFFFF\<close> on one port. \<open>hub_record\<close> abbreviates a registry record with PPPS.
\<close>

definition usb2_persona :: libusb_device where
  "usb2_persona =
     \<lparr>dev_ptr = 16, get_device_descriptor_rc = 0,
      device_descriptor = \<lparr>bDeviceClass = 9, bcdUSB = 0x0210, idVendor = 0x0451, idProduct = 0x8142\<rparr>,
      open_rc = 0, hub_descriptor_len = 9,
      hub_descriptor = \<lparr>bNbrPorts = 4, wHubCharacteristics = hub_characteristics_bytes 0x00a9\<rparr>,
      bus_number = 1, port_numbers = [1], description_text = ''0451:8142''\<rparr>"

definition usb3_persona :: libusb_device where
  "usb3_persona =
     \<lparr>dev_ptr = 32, get_device_descriptor_rc = 0,
      device_descriptor = \<lparr>bDeviceClass = 9, bcdUSB = 0x0300, idVendor = 0x0451, idProduct = 0x8140\<rparr>,
      open_rc = 0, hub_descriptor_len = 12,
      hub_descriptor = \<lparr>bNbrPorts = 4, wHubCharacteristics = hub_characteristics_bytes 0x0009\<rparr>,
      bus_number = 2, port_numbers = [1], description_text = ''0451:8140''\<rparr>"



definition no_access_hub :: libusb_device where
  "no_access_hub =
     \<lparr>dev_ptr = 80, get_device_descriptor_rc = 0,
      device_descriptor = \<lparr>bDeviceClass = 9, bcdUSB = 0x0200, idVendor = 0x05e3, idProduct = 0x0608\<rparr>,
      open_rc = - 3, hub_descriptor_len = 0,
      hub_descriptor = \<lparr>bNbrPorts = 0, wHubCharacteristics = [0, 0]\<rparr>,
      bus_number = 3, port_numbers = [2], description_text = ''05e3:0608''\<rparr>"

definition short_read_hub :: libusb_device where
  "short_read_hub =
     \<lparr>dev_ptr = 96, get_device_descriptor_rc = 0,
      device_descriptor = \<lparr>bDeviceClass = 9, bcdUSB = 0x0200, idVendor = 0x05e3, idProduct = 0x0608\<rparr>,
      open_rc = 0, hub_descriptor_len = 0,
      hub_descriptor = \<lparr>bNbrPorts = 0, wHubCharacteristics = [0, 0]\<rparr>,
      bus_number = 3, port_numbers = [2], description_text = ''05e3:0608''\<rparr>"

definition io_error_on_port1 :: "int \<Rightarrow> port_transfer" where
  "io_error_on_port1 port =
     (if port = 1 then \<lparr>transfer_rc = - 1, wPortStatus = 0\<rparr>
      else \<lparr>transfer_rc = 4, wPortStatus = 0x0100\<rparr>)"

definition io_error_on_port2 :: "int \<Rightarrow> port_transfer" where
  "io_error_on_port2 port =
     (if port = 2 then \<lparr>transfer_rc = - 1, wPortStatus = 0\<rparr>
      else \<lparr>transfer_rc = 4, wPortStatus = 0x0100\<rparr>)"

definition all_ones_on_port2 :: "int \<Rightarrow> port_transfer" where
  "all_ones_on_port2 port =
     (if port = 2 then \<lparr>transfer_rc = 4, wPortStatus = 0xFFFF\<rparr>
      else \<lparr>transfer_rc = 4, wPortStatus = 0x0100\<rparr>)"

definition nothing_attached :: "int \<Rightarrow> string" where
  "nothing_attached port = []"

definition hub_record :: "nat \<Rightarrow> int \<Rightarrow> bool \<Rightarrow> string \<Rightarrow> string \<Rightarrow> hub_info" where
  "hub_record p bcd act vid loc =
     \<lparr>dev = p, bcd_usb = bcd, nports = 4, ppps = True, actionable = act,
      vendor = vid, location = loc, description = vid\<rparr>"

section \<open>Unfolding sets and simplifier setup\<close>

lemmas port_stat_defs =
  USB_PORT_STAT_CONNECTION_def USB_PORT_STAT_ENABLE_def USB_PORT_STAT_SUSPEND_def
  USB_PORT_STAT_OVERCURRENT_def USB_PORT_STAT_RESET_def USB_PORT_STAT_POWER_def
  USB_PORT_STAT_LOW_SPEED_def USB_PORT_STAT_HIGH_SPEED_def USB_PORT_STAT_TEST_def
  USB_PORT_STAT_INDICATOR_def USB_PORT_STAT_LINK_STATE_def USB_SS_PORT_STAT_POWER_def
  USB_SS_PORT_STAT_SPEED_def USB_PORT_STAT_SPEED_5GBPS_def USB_SS_PORT_LS_U0_def
  USB_SS_PORT_LS_U1_def USB_SS_PORT_LS_U2_def USB_SS_PORT_LS_U3_def
  USB_SS_PORT_LS_SS_DISABLED_def USB_SS_PORT_LS_RX_DETECT_def USB_SS_PORT_LS_SS_INACTIVE_def
  USB_SS_PORT_LS_POLLING_def USB_SS_PORT_LS_RECOVERY_def USB_SS_PORT_LS_HOT_RESET_def
  USB_SS_PORT_LS_COMP_MOD_def USB_SS_PORT_LS_LOOPBACK_def

lemmas hub_char_defs =
  HUB_CHAR_LPSM_def HUB_CHAR_INDV_PORT_LPSM_def HUB_CHAR_OCPM_def
  HUB_CHAR_COMMON_OCPM_def HUB_CHAR_INDV_PORT_OCPM_def

lemmas eval_consts = LIBUSB_CLASS_HUB_def LIBUSB_DT_HUB_NONVAR_SIZE_def LIBUSB_ERROR_INVALID_PARAM_def
  LIBUSB_ERROR_ACCESS_def MAX_HUBS_def USB_SS_BCD_def hub_char_defs

lemmas eval_hub_info = get_hub_info_def zero_info_def vendor_string_def location_string_def
  fmt_04x_def fmt_d.simps digit_char_def ppps_of_characteristics_def hub_characteristics_bytes_def Let_def

text \<open>The equation of \<open>fmt_d\<close> rewrites its own right-hand side, so it is used on demand.\<close>

declare fmt_d.simps [simp del]

section \<open>Facts about characters and the string functions\<close>

lemma of_char_0_iff: "of_char c = (0::nat) \<longleftrightarrow> c = CHR 0x00"
proof -
  have "(of_char c = (0::nat)) = (of_char c = (of_char (CHR 0x00) :: nat))" by simp
  also have "\<dots> = (c = CHR 0x00)" by (rule of_char_eq_iff)
  finally show ?thesis .
qed

lemma of_char_tolower_0: "of_char (tolower c) = (0::nat) \<longleftrightarrow> c = CHR 0x00"
proof (cases "(65::nat) \<le> of_char c \<and> of_char c \<le> (90::nat)")
  case True
  then have "of_char (tolower c) = ((of_char c + 32) mod 256 :: nat)"
    by (simp add: tolower_def)
  moreover from True have "c \<noteq> CHR 0x00" by auto
  ultimately show ?thesis using True by simp
next
  case False
  then have "tolower c = c" by (auto simp: tolower_def)
  then show ?thesis by (simp add: of_char_0_iff)
qed

lemma tolower_diff: "tolower a \<noteq> tolower b \<Longrightarrow> int (of_char (tolower a)) - int (of_char (tolower b)) \<noteq> 0"
  by simp

lemma tolower_upper: "tolower CHR ''A'' = CHR ''a''" "tolower CHR ''B'' = CHR ''b''"
  by code_simp+

lemma tolower_other: "\<not> ((65::nat) \<le> of_char c \<and> of_char c \<le> (90::nat)) \<Longrightarrow> tolower c = c"
  by (auto simp: tolower_def)

lemma strcasecmp_0_iff:
  "CHR 0x00 \<notin> set s \<Longrightarrow> CHR 0x00 \<notin> set t \<Longrightarrow> strcasecmp s t = 0 \<longleftrightarrow> map tolower s = map tolower t"
  by (induction s t rule: strcasecmp.induct) (auto simp: of_char_tolower_0)

lemma strncasecmp_0_iff:
  "CHR 0x00 \<notin> set s \<Longrightarrow> strncasecmp s t (length s) = 0 \<longleftrightarrow> prefix (map tolower s) (map tolower t)"
  apply (induction s arbitrary: t)
   apply simp
  subgoal for a s t
    by (cases t) (auto simp: of_char_tolower_0)
  done

lemma strncasecmp_numeral:
  "strncasecmp [] [] (numeral k) = 0"
  "strncasecmp [] (b # t) (numeral k) = - int (of_char (tolower b))"
  "strncasecmp (a # s) [] (numeral k) = int (of_char (tolower a))"
  "strncasecmp (a # s) (b # t) (numeral k) =
     (if tolower a = tolower b then strncasecmp s t (pred_numeral k)
      else int (of_char (tolower a)) - int (of_char (tolower b)))"
  by (simp_all add: numeral_eq_Suc)

section \<open>Facts about the bit fields\<close>

lemma all_less_8: "(\<forall>n<8. P n) \<longleftrightarrow> P 0 \<and> P 1 \<and> P 2 \<and> P 3 \<and> P 4 \<and> P 5 \<and> P 6 \<and> P (7::nat)"
proof -
  have "n < 8 \<Longrightarrow> n \<in> {0,1,2,3,4,5,6,7}" for n :: nat by auto
  then show ?thesis by auto
qed

lemma lpsm_bits: "((b :: 8 word) AND 3 = 1) \<longleftrightarrow> (bit b 0 \<and> \<not> bit b 1)"
  apply (subst bit_eq_iff)
  apply (simp add: bit_and_iff all_less_8 bit_1_iff)
  done

lemma ocpm_bits_indv: "((b :: 8 word) AND 0x18 = 8) \<longleftrightarrow> (bit b 3 \<and> \<not> bit b 4)"
  apply (subst bit_eq_iff)
  apply (simp add: bit_and_iff all_less_8 bit_1_iff)
  done

lemma ocpm_bits_common: "((b :: 8 word) AND 0x18 = 0) \<longleftrightarrow> (\<not> bit b 3 \<and> \<not> bit b 4)"
  apply (subst bit_eq_iff)
  apply (simp add: bit_and_iff all_less_8 bit_1_iff)
  done

lemma ppps_of_word:
  "ppps_of_characteristics (hub_characteristics_bytes w) \<longleftrightarrow>
     (\<not> bit w 1 \<and> bit w 0) \<and> ((\<not> bit w 4 \<and> \<not> bit w 3) \<or> (\<not> bit w 4 \<and> bit w 3))"
  by (auto simp add: ppps_of_characteristics_def hub_characteristics_bytes_def hub_char_defs
      lpsm_bits ocpm_bits_indv ocpm_bits_common bit_ucast_iff)

lemma msb16: "bit (w :: 16 word) 15 \<longleftrightarrow> sint w < 0"
  using bit_last_iff [of w] by simp

lemma sint16_bit15:
  assumes "bit (w :: 16 word) 15"
  shows "sint w = uint w - 65536"
proof -
  have "uint w < 65536"
    using uint_lt2p [of w] by simp
  then have "uint w mod 65536 = uint w"
    by simp
  with assms show ?thesis
    by (simp add: sint_uint signed_take_bit_eq_take_bit_minus bit_uint_iff take_bit_eq_mod)
qed

lemma sint16_eq_0: "sint (w :: 16 word) = 0 \<longleftrightarrow> w = 0"
proof
  assume "sint w = 0"
  then have "word_of_int (sint w) = (word_of_int 0 :: 16 word)" by simp
  then show "w = 0" by simp
next
  assume "w = 0" then show "sint w = 0" by simp
qed

lemma sint16_eq_128: "sint (w :: 16 word) = 128 \<longleftrightarrow> w = 128"
proof
  assume "sint w = 128"
  then have "word_of_int (sint w) = (word_of_int 128 :: 16 word)" by simp
  then show "w = 128" by simp
next
  assume "w = 128" then show "sint w = 128" by simp
qed

lemma word_split_mask: "(w :: 16 word) = (w AND m) OR (w AND NOT m)"
  by (rule bit_eqI) (auto simp: bit_and_iff bit_or_iff bit_not_iff)

lemma ss_disabled_iff: "(w :: 16 word) = 0x80 \<longleftrightarrow> (w AND 0x01e0 = 0x0080 \<and> w AND NOT 0x01e0 = 0)"
proof
  assume "w = 0x80" then show "w AND 0x01e0 = 0x0080 \<and> w AND NOT 0x01e0 = 0" by simp
next
  assume a: "w AND 0x01e0 = 0x0080 \<and> w AND NOT 0x01e0 = 0"
  have "w = (w AND 0x01e0) OR (w AND NOT 0x01e0)" by (rule word_split_mask)
  with a show "w = 0x80" by simp
qed

lemma ss_disabled_sint:
  "sint (w :: 16 word) = 0x80 \<longleftrightarrow> (w AND 0x01e0 = 0x0080 \<and> w AND NOT 0x01e0 = 0)"
  unfolding sint16_eq_128 by (rule ss_disabled_iff)

lemma in_set_flag: "t \<in> set (flag p m s) \<longleftrightarrow> (p AND m \<noteq> 0 \<and> t = s)"
  by (auto simp add: flag_def)

lemma in_set_if_single: "t \<in> set (if c then [s] else []) \<longleftrightarrow> (c \<and> t = s)"
  by auto

lemma off_labels: "'' off'' \<in> set (status_labels bcd p descr) \<longleftrightarrow>
     (if bcd < USB_SS_BCD then p = 0 else p = USB_SS_PORT_LS_SS_DISABLED)"
  by (simp add: status_labels_def in_set_flag in_set_if_single Let_def)

section \<open>Facts about the scan\<close>

lemma ppps_apply_filters: "ppps (apply_filters lf vf info) = ppps info"
  by (simp add: apply_filters_def Let_def)

lemma scan_device_ppps:
  "\<forall>h\<in>set (snd st). ppps h \<Longrightarrow> \<forall>h\<in>set (snd (scan_device lf vf d st)). ppps h"
  by (auto simp: scan_device_def Let_def ppps_apply_filters split: prod.splits if_splits)

lemma scan_devices_ppps:
  "\<forall>h\<in>set (snd st). ppps h \<Longrightarrow> \<forall>h\<in>set (snd (scan_devices lf vf devs st)). ppps h"
  unfolding scan_devices_def
proof (induction devs arbitrary: st)
  case Nil
  then show ?case by simp
next
  case (Cons d devs)
  from Cons.prems have "\<forall>h\<in>set (snd (scan_device lf vf d st)). ppps h"
    by (rule scan_device_ppps)
  then show ?case using Cons.IH by simp
qed

lemma scan_device_perm_ok:
  "fst (scan_device lf vf d st) \<longleftrightarrow>
     fst st \<and>
     ((get_device_descriptor_rc d = 0 \<and> bDeviceClass (device_descriptor d) \<noteq> LIBUSB_CLASS_HUB) \<or>
      fst (get_hub_info d zero_info) = 0)"
  by (auto simp: scan_device_def Let_def split: prod.splits if_splits)

lemma scan_devices_perm_ok:
  "fst (scan_devices lf vf devs st) \<longleftrightarrow>
     fst st \<and>
     (\<forall>d\<in>set devs.
        (get_device_descriptor_rc d = 0 \<and> bDeviceClass (device_descriptor d) \<noteq> LIBUSB_CLASS_HUB) \<or>
        fst (get_hub_info d zero_info) = 0)"
  unfolding scan_devices_def
proof (induction devs arbitrary: st)
  case Nil
  then show ?case by simp
next
  case (Cons d devs)
  show ?case
    by (simp add: Cons.IH scan_device_perm_ok)
qed

lemma ppps_zero_info: "\<not> ppps zero_info"
  by (simp add: zero_info_def)

section \<open>Facts about the correlation pass\<close>

lemma find_dual_range:
  "find_dual hubs i js m = m \<or> (\<exists>j\<in>set js. find_dual hubs i js m = int j)"
proof (induction js arbitrary: m)
  case Nil
  then show ?case by simp
next
  case (Cons j js)
  have a: "find_dual hubs i js m' = m' \<or> (\<exists>j\<in>set js. find_dual hubs i js m' = int j)" for m'
    by (rule Cons.IH)
  show ?case
    using a [of m] a [of "int j"]
    by (auto simp: Let_def split: option.splits)
qed

lemma find_dual_bound:
  assumes "0 \<le> find_dual hubs i [0..<n] (- 1)"
  shows "nat (find_dual hubs i [0..<n] (- 1)) < n"
  using find_dual_range [of hubs i "[0..<n]" "- 1"] assms by auto

lemma only_promoted_refl: "only_promoted hubs hubs"
  by (simp add: only_promoted_def)

lemma only_promoted_trans:
  "only_promoted a b \<Longrightarrow> only_promoted b c \<Longrightarrow> only_promoted a c"
  unfolding only_promoted_def
  by (auto; metis hub_info.update_convs(5) hub_info.surjective)

lemma only_promoted_update:
  "m < length hubs \<Longrightarrow> only_promoted hubs (hubs[m := (hubs ! m)\<lparr>actionable := True\<rparr>])"
  by (simp add: only_promoted_def nth_list_update)

lemma correlate_hub_only_promoted: "only_promoted (fst st) (fst (correlate_hub exact i st))"
  by (auto simp: correlate_hub_def Let_def only_promoted_refl only_promoted_update find_dual_bound)

lemma fold_correlate_only_promoted:
  "only_promoted (fst st) (fst (fold (correlate_hub exact) is st))"
proof (induction "is" arbitrary: st)
  case Nil
  then show ?case by (simp add: only_promoted_refl)
next
  case (Cons i "is")
  show ?case
    using only_promoted_trans [OF correlate_hub_only_promoted Cons.IH] by simp
qed

lemma correlate_upto_only_promoted: "only_promoted hubs (fst (correlate_upto exact k hubs))"
  using fold_correlate_only_promoted [of "(hubs, 0)"] by (simp add: correlate_upto_def)

lemma only_promoted_ppps:
  assumes "only_promoted before after" "\<forall>h\<in>set before. ppps h"
  shows "\<forall>h\<in>set after. ppps h"
proof
  fix h assume "h \<in> set after"
  then obtain j where j: "j < length after" "after ! j = h" by (auto simp: in_set_conv_nth)
  with assms(1) have "j < length before" "h = before ! j \<or> h = (before ! j)\<lparr>actionable := True\<rparr>"
    by (auto simp: only_promoted_def)
  with assms(2) show "ppps h" by auto
qed

lemma bcd_only_promoted:
  "only_promoted before after \<Longrightarrow> k < length before \<Longrightarrow> bcd_usb (after ! k) = bcd_usb (before ! k)"
  by (auto simp: only_promoted_def)






lemma correlate_upto_Suc:
  "correlate_upto exact (Suc k) hubs = correlate_hub exact k (correlate_upto exact k hubs)"
  by (simp add: correlate_upto_def)

lemma correlate_hub_exact:
  "correlate_hub True i st = (fst st, snd st + (if actionable (fst st ! i) then 1 else 0))"
  by (simp add: correlate_hub_def Let_def)

lemma correlate_upto_exact:
  "k \<le> length hubs \<Longrightarrow> correlate_upto True k hubs = (hubs, length (filter actionable (take k hubs)))"
proof (induction k)
  case 0
  then show ?case by (simp add: correlate_upto_def)
next
  case (Suc k)
  then show ?case
    by (simp add: correlate_upto_Suc correlate_hub_exact take_Suc_conv_app_nth)
qed

lemma correlate_hub_count:
  "snd (correlate_hub exact i st) =
     snd st + (if actionable (fst st ! i) \<and> (bcd_usb (fst st ! i) < USB_SS_BCD \<or> exact) then 1 else 0)"
  by (simp add: correlate_hub_def Let_def)

lemma correlate_upto_count:
  "k \<le> length hubs \<Longrightarrow>
   snd (correlate_upto exact k hubs) =
     length (filter (\<lambda>i. actionable (fst (correlate_upto exact i hubs) ! i) \<and>
                          (bcd_usb (hubs ! i) < USB_SS_BCD \<or> exact)) [0..<k])"
proof (induction k)
  case 0
  then show ?case by (simp add: correlate_upto_def)
next
  case (Suc k)
  then have k: "k < length hubs" by simp
  have "bcd_usb (fst (correlate_upto exact k hubs) ! k) = bcd_usb (hubs ! k)"
    using bcd_only_promoted [OF correlate_upto_only_promoted k] .
  with Suc show ?case
    by (simp add: correlate_upto_Suc correlate_hub_count)
qed

text \<open>
  The return value in terms of the function's own variables: \<open>perm_ok\<close> has been cleared
  exactly when \<open>get_hub_info\<close> returned a non-zero code for a device the scan did not skip,
  and the last conjunct says when that code is non-zero.
\<close>

lemma usb_find_hubs_return_code:
  "return_value (usb_find_hubs usb_devs lf vf exact) =
     (if (\<exists>d\<in>set usb_devs.
            \<not> (get_device_descriptor_rc d = 0 \<and> bDeviceClass (device_descriptor d) \<noteq> LIBUSB_CLASS_HUB) \<and>
            fst (get_hub_info d zero_info) \<noteq> 0) \<and>
         phys_count (usb_find_hubs usb_devs lf vf exact) = 0
      then LIBUSB_ERROR_ACCESS
      else int (phys_count (usb_find_hubs usb_devs lf vf exact))) \<and>
   LIBUSB_ERROR_ACCESS < 0 \<and>
   0 \<le> int (phys_count (usb_find_hubs usb_devs lf vf exact)) \<and>
   (\<not> (get_device_descriptor_rc dv = 0 \<and> bDeviceClass (device_descriptor dv) \<noteq> LIBUSB_CLASS_HUB) \<longrightarrow>
      (fst (get_hub_info dv zero_info) \<noteq> 0 \<longleftrightarrow>
         get_device_descriptor_rc dv \<noteq> 0 \<or> open_rc dv \<noteq> 0 \<or>
         (hub_descriptor_len dv < LIBUSB_DT_HUB_NONVAR_SIZE + 2 \<and> hub_descriptor_len dv \<noteq> 0)))"
proof -
  have g: "\<not> (get_device_descriptor_rc dv = 0 \<and> bDeviceClass (device_descriptor dv) \<noteq> LIBUSB_CLASS_HUB) \<longrightarrow>
      (fst (get_hub_info dv zero_info) \<noteq> 0 \<longleftrightarrow>
         get_device_descriptor_rc dv \<noteq> 0 \<or> open_rc dv \<noteq> 0 \<or>
         (hub_descriptor_len dv < LIBUSB_DT_HUB_NONVAR_SIZE + 2 \<and> hub_descriptor_len dv \<noteq> 0))"
    by (auto simp: get_hub_info_def Let_def)
  obtain p hs where s: "scan_devices lf vf usb_devs (True, []) = (p, hs)"
    by (cases "scan_devices lf vf usb_devs (True, [])")
  have "p \<longleftrightarrow> (\<forall>d\<in>set usb_devs.
        (get_device_descriptor_rc d = 0 \<and> bDeviceClass (device_descriptor d) \<noteq> LIBUSB_CLASS_HUB) \<or>
        fst (get_hub_info d zero_info) = 0)"
    using scan_devices_perm_ok [of lf vf usb_devs "(True, [])"] s by simp
  then have "return_value (usb_find_hubs usb_devs lf vf exact) =
     (if (\<exists>d\<in>set usb_devs.
            \<not> (get_device_descriptor_rc d = 0 \<and> bDeviceClass (device_descriptor d) \<noteq> LIBUSB_CLASS_HUB) \<and>
            fst (get_hub_info d zero_info) \<noteq> 0) \<and>
         phys_count (usb_find_hubs usb_devs lf vf exact) = 0
      then LIBUSB_ERROR_ACCESS
      else int (phys_count (usb_find_hubs usb_devs lf vf exact)))"
    by (auto simp: usb_find_hubs_def s split: prod.splits)
  moreover have "LIBUSB_ERROR_ACCESS < 0"
    by (simp add: LIBUSB_ERROR_ACCESS_def)
  ultimately show ?thesis
    using g by simp
qed

section \<open>Facts about the port loop\<close>

lemma port_loop_break:
  assumes "\<forall>q\<in>set pre. port_selected portmask q \<longrightarrow> get_port_status devh (transfers q) \<noteq> - 1"
      and "port_selected portmask p"
      and "get_port_status devh (transfers p) = - 1"
  shows "port_loop devh transfers attached hub portmask (pre @ p # post) =
           map (\<lambda>q. Port_line q (get_port_status devh (transfers q))
                      (status_labels (bcd_usb hub) (get_port_status devh (transfers q)) (attached q)))
               (filter (port_selected portmask) pre)
           @ [Cannot_read_port p]"
  using assms
  by (induction pre) (auto simp: port_selected_def Let_def)

section \<open>The code on the concrete inputs\<close>

lemma get_hub_info_usb2_persona:
  "get_hub_info usb2_persona zero_info = (0, hub_record 16 0x210 False ''0451:8142'' ''1-1''\<lparr>description := []\<rparr>)"
  by (simp add: usb2_persona_def hub_record_def eval_hub_info eval_consts)

lemma get_hub_info_usb3_persona:
  "get_hub_info usb3_persona zero_info = (0, hub_record 32 0x300 False ''0451:8140'' ''2-1''\<lparr>description := []\<rparr>)"
  by (simp add: usb3_persona_def hub_record_def eval_hub_info eval_consts)



lemma get_hub_info_no_access: "get_hub_info no_access_hub zero_info = (- 3, zero_info)"
  by (simp add: no_access_hub_def get_hub_info_def LIBUSB_CLASS_HUB_def Let_def)

lemma get_hub_info_short_read: "get_hub_info short_read_hub zero_info = (0, zero_info)"
  by (simp add: short_read_hub_def get_hub_info_def LIBUSB_CLASS_HUB_def LIBUSB_DT_HUB_NONVAR_SIZE_def Let_def)

lemma no_access_hub_class:
  "get_device_descriptor_rc no_access_hub = 0"
  "bDeviceClass (device_descriptor no_access_hub) = LIBUSB_CLASS_HUB"
  by (simp_all add: no_access_hub_def LIBUSB_CLASS_HUB_def)

lemma short_read_hub_class:
  "get_device_descriptor_rc short_read_hub = 0"
  "bDeviceClass (device_descriptor short_read_hub) = LIBUSB_CLASS_HUB"
  by (simp_all add: short_read_hub_def LIBUSB_CLASS_HUB_def)

lemmas eval_scan = scan_device_def get_device_description_def apply_filters_def Let_def
  hub_record_def tolower_other eval_consts

lemma scan_usb2_persona:
  "scan_device ''2-1'' [] usb2_persona (p, []) = (p, [hub_record 16 0x210 False ''0451:8142'' ''1-1''])"
  by (simp add: get_hub_info_usb2_persona eval_scan) (simp add: usb2_persona_def eval_consts)

lemma scan_usb3_persona:
  "length hubs < 128 \<Longrightarrow> scan_device ''2-1'' [] usb3_persona (p, hubs) = (p, hubs @ [hub_record 32 0x300 True ''0451:8140'' ''2-1''])"
  by (simp add: get_hub_info_usb3_persona eval_scan) (simp add: usb3_persona_def eval_consts)



lemma scan_one_hub:
  "scan_devices ''2-1'' [] [usb2_persona, usb3_persona] (True, []) =
     (True, [hub_record 16 0x210 False ''0451:8142'' ''1-1'', hub_record 32 0x300 True ''0451:8140'' ''2-1''])"
  by (simp add: scan_devices_def scan_usb2_persona scan_usb3_persona)


lemma scan_no_access: "scan_device lf vf no_access_hub (p, hubs) = (False, hubs)"
  by (simp add: scan_device_def get_hub_info_no_access no_access_hub_class ppps_zero_info Let_def)

lemma scan_short_read: "scan_device lf vf short_read_hub (p, hubs) = (p, hubs)"
  by (simp add: scan_device_def get_hub_info_short_read short_read_hub_class ppps_zero_info Let_def)

lemma scan_one_hub_no_access:
  "scan_devices ''2-1'' [] [no_access_hub, usb2_persona, usb3_persona] (True, []) =
     (False, [hub_record 16 0x210 False ''0451:8142'' ''1-1'', hub_record 32 0x300 True ''0451:8140'' ''2-1''])"
  by (simp add: scan_devices_def scan_no_access scan_usb2_persona scan_usb3_persona)

lemma scan_only_short_read:
  "scan_devices [] [] [short_read_hub] (True, []) = (True, [])"
  by (simp add: scan_devices_def scan_short_read)

lemmas eval_correlate = correlate_def correlate_upto_def correlate_hub_def Let_def
  hub_record_def strncasecmp_numeral tolower_other USB_SS_BCD_def

lemma upt_0_2: "[0..<2] = [0, 1]" by (simp add: upt_rec)


lemma correlate_one_hub:
  "correlate False [hub_record 16 0x210 False ''0451:8142'' ''1-1'', hub_record 32 0x300 True ''0451:8140'' ''2-1''] =
     ([hub_record 16 0x210 True ''0451:8142'' ''1-1'', hub_record 32 0x300 True ''0451:8140'' ''2-1''], 0)"
  by (simp add: eval_correlate upt_0_2 cong: option.case_cong_weak prod.case_cong_weak)



lemma correlate_both_actionable:
  "correlate False [hub_record 16 0x210 True ''0451:8142'' ''1-1'', hub_record 32 0x300 True ''0451:8140'' ''2-1''] =
     ([hub_record 16 0x210 True ''0451:8142'' ''1-1'', hub_record 32 0x300 True ''0451:8140'' ''2-1''], 1)"
  by (simp add: eval_correlate upt_0_2 cong: option.case_cong_weak prod.case_cong_weak)

lemma correlate_lone_usb3:
  "correlate False [hub_record 32 0x300 True ''0451:8140'' ''2-1''] =
     ([hub_record 32 0x300 True ''0451:8140'' ''2-1''], 0)"
  by (simp add: eval_correlate cong: option.case_cong_weak prod.case_cong_weak)

lemma usb_find_hubs_one_hub:
  "usb_find_hubs [usb2_persona, usb3_persona] ''2-1'' [] False =
     \<lparr>return_value = 0,
      registry = [hub_record 16 0x210 True ''0451:8142'' ''1-1'', hub_record 32 0x300 True ''0451:8140'' ''2-1''],
      phys_count = 0\<rparr>"
  by (simp add: usb_find_hubs_def scan_one_hub correlate_one_hub)

lemma usb_find_hubs_one_hub_no_access:
  "usb_find_hubs [no_access_hub, usb2_persona, usb3_persona] ''2-1'' [] False =
     \<lparr>return_value = LIBUSB_ERROR_ACCESS,
      registry = [hub_record 16 0x210 True ''0451:8142'' ''1-1'', hub_record 32 0x300 True ''0451:8140'' ''2-1''],
      phys_count = 0\<rparr>"
  by (simp add: usb_find_hubs_def scan_one_hub_no_access correlate_one_hub)

lemma usb_find_hubs_only_short_read:
  "usb_find_hubs [short_read_hub] [] [] False = \<lparr>return_value = 0, registry = [], phys_count = 0\<rparr>"
  by (simp add: usb_find_hubs_def scan_only_short_read correlate_def correlate_upto_def)

section \<open>The claims\<close>

subsection \<open>C1\<close>

text \<open>
  C1. Claim: in non-exact mode the count returned by \<open>usb_find_hubs\<close> equals the number of
  registry records that are actionable after correlation and have \<open>bcd_usb < 0x0300\<close>.
  The code counts a record when the loop visits it, and promotes its dual afterwards, so
  a USB2 record promoted by a USB3 record that comes later in the registry is never
  counted. On the one physical hub above, enumerated USB2 persona first and filtered by
  the location \<open>2-1\<close> of its USB3 persona: the function returns 0 and leaves both records
  actionable, the first of them with \<open>bcd_usb = 0x0210\<close>. The comment above
  \<open>usb_find_hubs\<close> promises the count of actionable physical hubs, which is 1 here.
\<close>

theorem usb_find_hubs_count_misses_promoted_usb2:
  "return_value (usb_find_hubs [usb2_persona, usb3_persona] ''2-1'' [] False) = 0 \<and>
   map actionable (registry (usb_find_hubs [usb2_persona, usb3_persona] ''2-1'' [] False)) = [True, True] \<and>
   map bcd_usb (registry (usb_find_hubs [usb2_persona, usb3_persona] ''2-1'' [] False)) = [0x0210, 0x0300]"
  by (simp add: usb_find_hubs_one_hub hub_record_def)

subsection \<open>C2\<close>

text \<open>
  C2, as amended. The count of the correlation pass is the number of records that are
  actionable when the loop visits them and that are USB<3.0 personas or met with the exact
  flag set (\<open>correlate_upto exact i hubs\<close> is the state in which the loop visits record
  \<open>i\<close>). With the exact flag set the registry is returned as it was, every flag as
  filtering left it, and the count is the number of actionable records.
\<close>

theorem correlate_counts_usb2_or_exact:
  "snd (correlate exact hubs) =
     length (filter (\<lambda>i. actionable (fst (correlate_upto exact i hubs) ! i) \<and>
                          (bcd_usb (hubs ! i) < USB_SS_BCD \<or> exact)) [0..<length hubs]) \<and>
   correlate True hubs = (hubs, length (filter actionable hubs))"
  by (simp add: correlate_def correlate_upto_count correlate_upto_exact)

text \<open>
  C2, the amended statement at two registries of two records. In exact mode the flags are
  unchanged and the one actionable record is counted; in non-exact mode, with both
  personas of one hub actionable, only the USB2 record (index 0) is counted.
\<close>

theorem correlate_counts_usb2_or_exact_witness:
  "correlate True [hub_record 16 0x210 False ''0451:8142'' ''1-1'', hub_record 32 0x300 True ''0451:8140'' ''2-1''] =
     ([hub_record 16 0x210 False ''0451:8142'' ''1-1'', hub_record 32 0x300 True ''0451:8140'' ''2-1''], 1) \<and>
   snd (correlate False [hub_record 16 0x210 True ''0451:8142'' ''1-1'', hub_record 32 0x300 True ''0451:8140'' ''2-1'']) = 1"
proof -
  let ?exact = "[hub_record 16 0x210 False ''0451:8142'' ''1-1'', hub_record 32 0x300 True ''0451:8140'' ''2-1'']"
  let ?both = "[hub_record 16 0x210 True ''0451:8142'' ''1-1'', hub_record 32 0x300 True ''0451:8140'' ''2-1'']"
  have "correlate True ?exact = (?exact, length (filter actionable ?exact))"
    using correlate_counts_usb2_or_exact [of True ?exact] by blast
  then have "correlate True ?exact = (?exact, 1)"
    by (simp add: hub_record_def)
  moreover have "snd (correlate False ?both) =
      length (filter (\<lambda>i. actionable (fst (correlate_upto False i ?both) ! i) \<and>
                          (bcd_usb (?both ! i) < USB_SS_BCD \<or> False)) [0..<length ?both])"
    using correlate_counts_usb2_or_exact [of False ?both] by blast
  then have "snd (correlate False ?both) = 1"
    by (simp add: correlate_both_actionable)
  ultimately show ?thesis
    by simp
qed

text \<open>
  C2 as stated fails: in non-exact mode an actionable record with \<open>bcd_usb \<ge> 0x0300\<close> is
  not counted. The registry holds that one record, and the count is 0.
\<close>

theorem correlate_leaves_actionable_usb3_uncounted:
  "actionable (hub_record 32 0x300 True ''0451:8140'' ''2-1'') \<and>
   USB_SS_BCD \<le> bcd_usb (hub_record 32 0x300 True ''0451:8140'' ''2-1'') \<and>
   snd (correlate False [hub_record 32 0x300 True ''0451:8140'' ''2-1'']) = 0"
  by (simp add: correlate_lone_usb3) (simp add: hub_record_def USB_SS_BCD_def)

subsection \<open>C3\<close>

text \<open>
  C3. When \<open>get_hub_info\<close> reaches the decoding (the device descriptor was read, the class
  is the hub class, the device opened, the transfer returned at least \<open>minlen\<close> bytes), then
  for every 16-bit characteristics word \<open>w\<close> in the descriptor, \<open>ppps\<close> is set if and only if
  bits 1:0 of \<open>w\<close> are 01 and bits 4:3 are 00 or 01.
\<close>

theorem get_hub_info_ppps_iff:
  assumes "get_device_descriptor_rc d = 0"
      and "bDeviceClass (device_descriptor d) = LIBUSB_CLASS_HUB"
      and "open_rc d = 0"
      and "LIBUSB_DT_HUB_NONVAR_SIZE + 2 \<le> hub_descriptor_len d"
      and "wHubCharacteristics (hub_descriptor d) = hub_characteristics_bytes w"
  shows "ppps (snd (get_hub_info d info)) \<longleftrightarrow>
     (\<not> bit w 1 \<and> bit w 0) \<and> ((\<not> bit w 4 \<and> \<not> bit w 3) \<or> (\<not> bit w 4 \<and> bit w 3))"
  using assms by (simp add: get_hub_info_def ppps_of_word Let_def)

text \<open>
  C3 at the USB2 persona above, whose characteristics word is \<open>0x00a9\<close>: PPPS is set.
\<close>

theorem get_hub_info_ppps_iff_witness:
  "ppps (snd (get_hub_info usb2_persona zero_info)) \<and> bit (0x00a9 :: 16 word) 0 \<and> \<not> bit (0x00a9 :: 16 word) 4"
  using get_hub_info_ppps_iff [of usb2_persona "0x00a9" zero_info]
  by (simp add: usb2_persona_def LIBUSB_CLASS_HUB_def LIBUSB_DT_HUB_NONVAR_SIZE_def)

subsection \<open>C4\<close>

text \<open>
  C4. Claim: \<open>usb_find_hubs\<close> returns the negative \<open>LIBUSB_ERROR_ACCESS\<close> if and only if at
  least one descriptor read failed and zero physical hubs ended up actionable, and the
  count otherwise. The code tests \<open>perm_ok\<close> and \<open>hub_phys_count\<close> (line 554), and each misses
  what the claim names. With a hub the user may not open in front of the one physical hub
  above, filtered by location \<open>2-1\<close>: the function returns \<open>LIBUSB_ERROR_ACCESS\<close> although
  both personas of the hub end up actionable, because \<open>hub_phys_count\<close> is 0 by the defect
  of C1. With a single hub whose hub-descriptor transfer returns no bytes: \<open>get_hub_info\<close>
  returns that length, 0, as its code, so the read counts as a success and the function
  returns 0, although the descriptor was shorter than \<open>minlen\<close> and no hub is actionable.
\<close>

theorem usb_find_hubs_return_misses_claim:
  "return_value (usb_find_hubs [no_access_hub, usb2_persona, usb3_persona] ''2-1'' [] False) = LIBUSB_ERROR_ACCESS \<and>
   map actionable (registry (usb_find_hubs [no_access_hub, usb2_persona, usb3_persona] ''2-1'' [] False)) = [True, True] \<and>
   fst (get_hub_info no_access_hub zero_info) = LIBUSB_ERROR_ACCESS \<and>
   hub_descriptor_len short_read_hub < LIBUSB_DT_HUB_NONVAR_SIZE + 2 \<and>
   fst (get_hub_info short_read_hub zero_info) = 0 \<and>
   return_value (usb_find_hubs [short_read_hub] [] [] False) = 0 \<and>
   registry (usb_find_hubs [short_read_hub] [] [] False) = []"
  by (simp add: usb_find_hubs_one_hub_no_access usb_find_hubs_only_short_read
      get_hub_info_no_access get_hub_info_short_read)
     (simp add: hub_record_def short_read_hub_def LIBUSB_ERROR_ACCESS_def LIBUSB_DT_HUB_NONVAR_SIZE_def)

subsection \<open>C5\<close>




subsection \<open>C6\<close>

text \<open>
  C6, as amended. When \<open>get_port_status\<close> returns \<open>-1\<close> for a displayed port \<open>p\<close>, and for
  no displayed port before it, \<open>print_port_status\<close> writes the lines of the displayed ports
  before \<open>p\<close>, then the message that port \<open>p\<close> cannot be read, and stops: no port after \<open>p\<close>
  is processed.
\<close>

theorem print_port_status_stops_at_failed_read:
  assumes "hub_open_rc = 0"
      and "1 \<le> p" and "p \<le> nports hub"
      and "port_selected portmask p"
      and "get_port_status (Some handle) (transfers p) = - 1"
      and "\<forall>q\<in>set [1..p - 1]. port_selected portmask q \<longrightarrow> get_port_status (Some handle) (transfers q) \<noteq> - 1"
  shows "print_port_status hub_open_rc handle transfers attached hub portmask =
           map (\<lambda>q. Port_line q (get_port_status (Some handle) (transfers q))
                      (status_labels (bcd_usb hub) (get_port_status (Some handle) (transfers q)) (attached q)))
               (filter (port_selected portmask) [1..p - 1])
           @ [Cannot_read_port p]"
proof -
  have "[1..nports hub] = [1..p - 1] @ p # [p + 1..nports hub]"
    using assms(2,3) by (rule upto_split3)
  then show ?thesis
    using assms(1) port_loop_break [OF assms(6) assms(4) assms(5)]
    by (simp add: print_port_status_def)
qed

text \<open>
  C6, the amended statement at a hub of four ports whose second port fails: port 1 is
  displayed, port 2 is reported as unreadable, ports 3 and 4 are not processed.
\<close>

theorem print_port_status_stops_at_failed_read_witness:
  "print_port_status 0 7 io_error_on_port2 nothing_attached (hub_record 16 0x210 True ''0451:8142'' ''1-1'') 0 =
     [Port_line 1 0x0100 ['' power''], Cannot_read_port 2]"
  using print_port_status_stops_at_failed_read [of 0 2 "hub_record 16 0x210 True ''0451:8142'' ''1-1''" 0 7 io_error_on_port2 nothing_attached]
  by (simp add: port_selected_def hub_record_def io_error_on_port2_def get_port_status_def
      status_labels_def flag_def port_stat_defs USB_SS_BCD_def upto_rec1)

text \<open>
  C6 as stated fails: the hub has four ports, the transfer for port 1 fails with \<open>-1\<close>, the
  transfers for the other ports succeed, and the output is the message for port 1 alone.
\<close>

theorem print_port_status_skips_remaining_ports:
  "nports (hub_record 16 0x210 True ''0451:8142'' ''1-1'') = 4 \<and>
   0 \<le> transfer_rc (io_error_on_port1 2) \<and>
   print_port_status 0 7 io_error_on_port1 nothing_attached (hub_record 16 0x210 True ''0451:8142'' ''1-1'') 0 =
     [Cannot_read_port 1]"
  by (simp add: print_port_status_def hub_record_def io_error_on_port1_def get_port_status_def upto_rec1)

subsection \<open>C7\<close>

text \<open>
  C7. After the scan of any prefix of the device list, after any number of iterations of
  the correlation loop, and in the registry \<open>usb_find_hubs\<close> leaves, every record has PPPS,
  so no record with \<open>ppps = False\<close> is actionable. Correlation only sets \<open>actionable\<close> on
  records already in the registry, and the record \<open>get_hub_info\<close> fills is not actionable
  before the PPPS test.
\<close>

theorem registry_records_have_ppps:
  "(\<forall>h\<in>set (snd (scan_devices lf vf (take k usb_devs) (True, []))). ppps h \<and> (\<not> ppps h \<longrightarrow> \<not> actionable h)) \<and>
   (\<forall>h\<in>set (fst (correlate_upto exact i (snd (scan_devices lf vf usb_devs (True, []))))).
       ppps h \<and> (\<not> ppps h \<longrightarrow> \<not> actionable h)) \<and>
   (\<forall>h\<in>set (registry (usb_find_hubs usb_devs lf vf exact)). ppps h \<and> (\<not> ppps h \<longrightarrow> \<not> actionable h)) \<and>
   only_promoted (snd (scan_devices lf vf usb_devs (True, []))) (registry (usb_find_hubs usb_devs lf vf exact)) \<and>
   \<not> actionable (snd (get_hub_info d zero_info))"
proof -
  have a: "\<forall>h\<in>set (snd (scan_devices lf vf ds (True, []))). ppps h" for ds
    by (rule scan_devices_ppps) simp
  have b: "\<forall>h\<in>set (fst (correlate_upto exact n (snd (scan_devices lf vf usb_devs (True, []))))). ppps h" for n
    by (rule only_promoted_ppps [OF correlate_upto_only_promoted a])
  have r: "registry (usb_find_hubs usb_devs lf vf exact) =
      fst (correlate_upto exact (length (snd (scan_devices lf vf usb_devs (True, []))))
             (snd (scan_devices lf vf usb_devs (True, []))))"
    by (simp add: usb_find_hubs_def correlate_def split: prod.splits)
  have c: "\<not> actionable (snd (get_hub_info d zero_info))"
    by (simp add: get_hub_info_def zero_info_def Let_def)
  show ?thesis
    using a [of "take k usb_devs"] b [of i] b c correlate_upto_only_promoted
    by (simp add: r)
qed

text \<open>
  C7 at the one physical hub above: both records of the final registry have PPPS.
\<close>

theorem registry_records_have_ppps_witness:
  "ppps (registry (usb_find_hubs [usb2_persona, usb3_persona] ''2-1'' [] False) ! 0) \<and>
   ppps (registry (usb_find_hubs [usb2_persona, usb3_persona] ''2-1'' [] False) ! 1)"
  using registry_records_have_ppps [where lf = "''2-1''" and vf = "[]" and k = 2 and usb_devs = "[usb2_persona, usb3_persona]"
      and exact = False and i = 2 and d = usb2_persona]
  by (simp add: usb_find_hubs_one_hub)

subsection \<open>C8\<close>

text \<open>
  C8. For filters and a location without NUL characters (C strings), a record is
  actionable after the filters if and only if the location filter is empty or equals the
  record's location up to case, and the vendor filter is empty or is a prefix of the
  record's vendor string up to case. The filter \<open>1a2b\<close> accepts the vendor string
  \<open>1A2B:0002\<close> and rejects \<open>2a2b:0001\<close>.
\<close>

theorem apply_filters_actionable_iff:
  assumes "CHR 0x00 \<notin> set lf" and "CHR 0x00 \<notin> set vf" and "CHR 0x00 \<notin> set (location info)"
  shows "(actionable (apply_filters lf vf info) \<longleftrightarrow>
            (lf = [] \<or> map tolower lf = map tolower (location info)) \<and>
            (vf = [] \<or> prefix (map tolower vf) (map tolower (vendor info)))) \<and>
         actionable (apply_filters [] ''1a2b'' (zero_info\<lparr>vendor := ''1A2B:0002''\<rparr>)) \<and>
         \<not> actionable (apply_filters [] ''1a2b'' (zero_info\<lparr>vendor := ''2a2b:0001''\<rparr>))"
proof -
  have "actionable (apply_filters lf vf info) \<longleftrightarrow>
            (lf = [] \<or> map tolower lf = map tolower (location info)) \<and>
            (vf = [] \<or> prefix (map tolower vf) (map tolower (vendor info)))"
    using assms by (auto simp: apply_filters_def Let_def strcasecmp_0_iff strncasecmp_0_iff)
  moreover have "actionable (apply_filters [] ''1a2b'' (zero_info\<lparr>vendor := ''1A2B:0002''\<rparr>))"
    by (simp add: apply_filters_def Let_def zero_info_def strncasecmp_numeral tolower_upper tolower_other)
  moreover have "\<not> actionable (apply_filters [] ''1a2b'' (zero_info\<lparr>vendor := ''2a2b:0001''\<rparr>))"
    by (simp add: apply_filters_def Let_def zero_info_def strncasecmp_numeral tolower_other)
  ultimately show ?thesis by blast
qed

text \<open>
  C8 at two records: location \<open>1-1\<close> does not pass the filter \<open>2-1\<close>; location \<open>2-1\<close> with
  vendor string \<open>0451:8140\<close> passes the filters \<open>2-1\<close> and \<open>0451\<close>.
\<close>

theorem apply_filters_actionable_iff_witness:
  "\<not> actionable (apply_filters ''2-1'' [] (hub_record 16 0x210 False ''0451:8142'' ''1-1'')) \<and>
   actionable (apply_filters ''2-1'' ''0451'' (hub_record 32 0x300 False ''0451:8140'' ''2-1''))"
  using apply_filters_actionable_iff [of "''2-1''" "[]" "hub_record 16 0x210 False ''0451:8142'' ''1-1''"]
    apply_filters_actionable_iff [of "''2-1''" "''0451''" "hub_record 32 0x300 False ''0451:8140'' ''2-1''"]
  by (simp add: hub_record_def tolower_other)

subsection \<open>C9\<close>

text \<open>
  C9. For a status word that a successful transfer delivered, the label \<open>off\<close> is printed
  if and only if: for \<open>bcd_usb < 0x0300\<close> the word is 0; otherwise its link-state field
  (mask \<open>0x01e0\<close>) is SS.Disabled (\<open>0x0080\<close>) and no bit outside the field is set.
\<close>

theorem status_labels_off_iff:
  assumes "0 \<le> transfer_rc x"
  shows "'' off'' \<in> set (status_labels bcd (get_port_status (Some handle) x) descr) \<longleftrightarrow>
     (if bcd < USB_SS_BCD then wPortStatus x = 0
      else wPortStatus x AND 0x01e0 = 0x0080 \<and> wPortStatus x AND NOT 0x01e0 = 0)"
proof -
  have a: "get_port_status (Some handle) x = sint (wPortStatus x)"
    using assms by (simp add: get_port_status_def)
  show ?thesis
    unfolding a off_labels USB_SS_PORT_LS_SS_DISABLED_def sint16_eq_0 ss_disabled_sint
    by (rule refl)
qed

text \<open>
  C9 at three status words: \<open>0x0080\<close> and \<open>0x0280\<close> on a USB3 hub, 0 on a USB2 hub.
\<close>

theorem status_labels_off_iff_witness:
  "'' off'' \<in> set (status_labels 0x0300 (get_port_status (Some 7) \<lparr>transfer_rc = 4, wPortStatus = 0x0080\<rparr>) []) \<and>
   '' off'' \<notin> set (status_labels 0x0300 (get_port_status (Some 7) \<lparr>transfer_rc = 4, wPortStatus = 0x0280\<rparr>) []) \<and>
   '' off'' \<in> set (status_labels 0x0200 (get_port_status (Some 7) \<lparr>transfer_rc = 4, wPortStatus = 0\<rparr>) [])"
  using status_labels_off_iff [of "\<lparr>transfer_rc = 4, wPortStatus = 0x0080\<rparr>" "0x0300" 7 "[]"]
    status_labels_off_iff [of "\<lparr>transfer_rc = 4, wPortStatus = 0x0280\<rparr>" "0x0300" 7 "[]"]
    status_labels_off_iff [of "\<lparr>transfer_rc = 4, wPortStatus = 0\<rparr>" "0x0200" 7 "[]"]
  by (simp add: USB_SS_BCD_def)

subsection \<open>C10\<close>

text \<open>
  C10. After a successful transfer \<open>get_port_status\<close> returns the status word read as a
  signed 16-bit value. So for every status word with bit 15 set it returns a negative
  value, the word minus 65536; a failed transfer returns its negative code; hence the
  result is negative exactly when the transfer failed or bit 15 of the word is set, and
  the sign does not tell the two apart. Every code of \<open>enum libusb_error\<close> is returned
  both by a transfer that failed with it and by a successful transfer of the status word
  with the same two's complement. The word \<open>0xFFFF\<close> gives \<open>-1\<close>, which is what a NULL
  handle returns, and \<open>print_port_status\<close> takes a port with that word for a failed read.
\<close>

theorem get_port_status_bit15_negative:
  "(0 \<le> transfer_rc x \<longrightarrow> get_port_status (Some handle) x = sint (wPortStatus x)) \<and>
   (0 \<le> transfer_rc x \<and> bit (wPortStatus x) 15 \<longrightarrow>
      get_port_status (Some handle) x < 0 \<and>
      get_port_status (Some handle) x = uint (wPortStatus x) - 65536) \<and>
   (transfer_rc x < 0 \<longrightarrow> get_port_status (Some handle) x = transfer_rc x) \<and>
   (get_port_status (Some handle) x < 0 \<longleftrightarrow> transfer_rc x < 0 \<or> bit (wPortStatus x) 15) \<and>
   (\<forall>e\<in>set libusb_error_codes.
      0 \<le> n \<longrightarrow>
      bit (word_of_int e :: 16 word) 15 \<and>
      get_port_status (Some handle) \<lparr>transfer_rc = n, wPortStatus = word_of_int e\<rparr> = e \<and>
      get_port_status (Some handle) \<lparr>transfer_rc = e, wPortStatus = w'\<rparr> = e) \<and>
   (0 \<le> transfer_rc x \<and> wPortStatus x = 0xFFFF \<longrightarrow>
      get_port_status (Some handle) x = - 1 \<and>
      get_port_status (Some handle) x = get_port_status None y) \<and>
   (0 \<le> transfer_rc (transfers port) \<and> wPortStatus (transfers port) = 0xFFFF \<and>
    port_selected portmask port \<longrightarrow>
      port_loop (Some handle) transfers attached hub portmask (port # ports) = [Cannot_read_port port])"
proof -
  have a: "0 \<le> transfer_rc x \<longrightarrow> get_port_status (Some handle) x = sint (wPortStatus x)"
    by (simp add: get_port_status_def)
  have b: "0 \<le> transfer_rc x \<and> bit (wPortStatus x) 15 \<longrightarrow>
      get_port_status (Some handle) x < 0 \<and>
      get_port_status (Some handle) x = uint (wPortStatus x) - 65536"
    using sint16_bit15 [of "wPortStatus x"] by (auto simp: get_port_status_def msb16)
  have c: "transfer_rc x < 0 \<longrightarrow> get_port_status (Some handle) x = transfer_rc x"
    by (simp add: get_port_status_def)
  have d: "get_port_status (Some handle) x < 0 \<longleftrightarrow> transfer_rc x < 0 \<or> bit (wPortStatus x) 15"
    by (auto simp: get_port_status_def msb16)
  have e: "\<forall>e\<in>set libusb_error_codes.
      0 \<le> n \<longrightarrow>
      bit (word_of_int e :: 16 word) 15 \<and>
      get_port_status (Some handle) \<lparr>transfer_rc = n, wPortStatus = word_of_int e\<rparr> = e \<and>
      get_port_status (Some handle) \<lparr>transfer_rc = e, wPortStatus = w'\<rparr> = e"
    by (simp add: libusb_error_codes_def get_port_status_def msb16)
  have f: "0 \<le> transfer_rc x \<and> wPortStatus x = 0xFFFF \<longrightarrow>
      get_port_status (Some handle) x = - 1 \<and>
      get_port_status (Some handle) x = get_port_status None y"
    by (simp add: get_port_status_def)
  have g: "0 \<le> transfer_rc (transfers port) \<and> wPortStatus (transfers port) = 0xFFFF \<and>
    port_selected portmask port \<longrightarrow>
      port_loop (Some handle) transfers attached hub portmask (port # ports) = [Cannot_read_port port]"
    by (simp add: port_selected_def get_port_status_def)
  show ?thesis
    using a b c d e f g by blast
qed

text \<open>
  C10 at the status words \<open>0xFFFF\<close>, \<open>0x8000\<close> and \<open>0xFFF9\<close> (the two's complement of
  \<open>LIBUSB_ERROR_TIMEOUT = -7\<close>), and at the display of a four-port hub whose port 2
  answers \<open>0xFFFF\<close>.
\<close>

theorem get_port_status_bit15_negative_witness:
  "get_port_status (Some 7) \<lparr>transfer_rc = 4, wPortStatus = 0xFFFF\<rparr> = - 1 \<and>
   get_port_status (Some 7) \<lparr>transfer_rc = 4, wPortStatus = 0xFFFF\<rparr> =
     get_port_status None \<lparr>transfer_rc = 4, wPortStatus = 0\<rparr> \<and>
   get_port_status (Some 7) \<lparr>transfer_rc = 4, wPortStatus = 0x8000\<rparr> = - 32768 \<and>
   get_port_status (Some 7) \<lparr>transfer_rc = 4, wPortStatus = 0xFFF9\<rparr> =
     get_port_status (Some 7) \<lparr>transfer_rc = - 7, wPortStatus = 0\<rparr> \<and>
   port_loop (Some 7) all_ones_on_port2 nothing_attached
     (hub_record 16 0x210 True ''0451:8142'' ''1-1'') 0 [2, 3, 4] = [Cannot_read_port 2]"
proof -
  let ?x = "\<lparr>transfer_rc = 4, wPortStatus = 0xFFFF :: 16 word\<rparr>"
  let ?y = "\<lparr>transfer_rc = 4, wPortStatus = 0 :: 16 word\<rparr>"
  let ?z = "\<lparr>transfer_rc = 4, wPortStatus = 0x8000 :: 16 word\<rparr>"
  let ?hub = "hub_record 16 0x210 True ''0451:8142'' ''1-1''"
  have "get_port_status (Some 7) ?x = - 1 \<and> get_port_status (Some 7) ?x = get_port_status None ?y"
    using get_port_status_bit15_negative [of ?x 7 4 0 ?y all_ones_on_port2 2 0 nothing_attached ?hub "[3, 4]"]
    by simp
  moreover have "get_port_status (Some 7) ?z = - 32768"
    using get_port_status_bit15_negative [of ?z 7 4 0 ?y all_ones_on_port2 2 0 nothing_attached ?hub "[3, 4]"]
    by simp
  moreover have "get_port_status (Some 7) \<lparr>transfer_rc = 4, wPortStatus = 0xFFF9\<rparr> =
     get_port_status (Some 7) \<lparr>transfer_rc = - 7, wPortStatus = 0\<rparr>"
  proof -
    have w: "(0xFFF9 :: 16 word) = - 7"
      by simp
    show ?thesis
      unfolding w
      using get_port_status_bit15_negative [of ?x 7 4 0 ?y all_ones_on_port2 2 0 nothing_attached ?hub "[3, 4]"]
      by (simp add: libusb_error_codes_def)
  qed
  moreover have "port_loop (Some 7) all_ones_on_port2 nothing_attached ?hub 0 [2, 3, 4] = [Cannot_read_port 2]"
    using get_port_status_bit15_negative [of ?x 7 4 0 ?y all_ones_on_port2 2 0 nothing_attached ?hub "[3, 4]"]
    by (simp add: all_ones_on_port2_def port_selected_def)
  ultimately show ?thesis by simp
qed

end
